theory Spec2Isabelle
  imports Complex_Main
begin

section \<open>ResumeMash: per-field model store, trainer, scorer and retraining policy\<close>

text \<open>
  A shallow embedding of \<^verbatim>\<open>src/ml_model.py\<close> (model store, \<^verbatim>\<open>train_model\<close>,
  \<^verbatim>\<open>score_text\<close>) and of the two routes of \<^verbatim>\<open>src/app.py\<close> that call it
  (\<^verbatim>\<open>swipe\<close> and the score-to-message part of \<^verbatim>\<open>feedback\<close>).
  Exceptions are values of a sum type, the database tables and the model directory are
  fields of an explicit state, and the two calls into the machine-learning library that
  fit a model are parameters of the trainer.
\<close>

subsection \<open>Data model\<close>

text \<open>Python exceptions that the modelled code can raise or let through.\<close>

datatype error = TypeError | ValueError | IndexError | OSError

text \<open>
  Rows of the three tables created in \<^verbatim>\<open>app.py\<close> lines 33-80, restricted to the columns
  that the modelled queries read or write. \<^verbatim>\<open>swipes.label\<close> is \<^verbatim>\<open>1\<close> for like/Mash
  and \<^verbatim>\<open>0\<close> for pass.
\<close>

record user_row =
  u_id :: int
  u_first_name :: string
  u_last_name :: string

record resume_row =
  r_id :: int
  r_user_id :: int
  r_filename :: string
  r_text :: string
  r_job_field :: string

record swipe_row =
  s_resume_id :: int
  s_user_id :: int
  s_label :: int

text \<open>
  Modelled from the spec: the fitted text vectorizer of the external library, which is
  not part of the repository. Its state is the fitted vocabulary with one weight per
  term; section 4.3 of the spec only requires that any text yields a valid, possibly
  all-zero, feature vector.
\<close>

record vectorizer =
  vocabulary :: "string list"
  idf :: "real list"

text \<open>
  Modelled from the spec: the fitted binary classifier of the external library (a
  logistic regression in \<^verbatim>\<open>ml_model.py\<close> line 87), as its coefficients and intercept.
\<close>

record classifier =
  coef :: "real list"
  intercept :: real

text \<open>The dictionary \<^verbatim>\<open>{"vectorizer": vectorizer, "model": model}\<close> that is pickled.\<close>

record model_bundle =
  b_vectorizer :: vectorizer
  b_model :: classifier

text \<open>Lines written to standard output by \<^verbatim>\<open>print\<close>, with the values they format.\<close>

datatype log_line =
  NotTraining string nat
| Retrained string nat nat

text \<open>
  The state outside a request: the tables of the database behind the handle \<^verbatim>\<open>db\<close>,
  the files of \<^verbatim>\<open>MODEL_DIR\<close> as a map from path to the bundle pickled there, and
  standard output. \<open>unwritable\<close> is the environment's part in opening a file for
  writing: the paths that the file system refuses for a reason the program does not
  control (a missing directory, permissions). \<open>train_calls\<close> is instrumentation, not program data: it records the
  \<^verbatim>\<open>job_field\<close> of every call of \<^verbatim>\<open>train_model\<close>, so that "the trainer was invoked"
  can be stated also for a call that changes nothing else.
\<close>

record world =
  users :: "user_row list"
  resumes :: "resume_row list"
  swipes :: "swipe_row list"
  models :: "string \<rightharpoonup> model_bundle"
  unwritable :: "string \<Rightarrow> bool"
  stdout :: "log_line list"
  train_calls :: "string list"

text \<open>
  Constructor arguments of \<^verbatim>\<open>TfidfVectorizer\<close> and \<^verbatim>\<open>LogisticRegression\<close>, and the two
  fitting calls of the library. The fitting algorithms are not part of the repository;
  they are parameters, and each may raise.
\<close>

record tfidf_params =
  stop_words :: "string option"
  max_features :: "nat option"

record logreg_params =
  max_iter :: nat
  class_weight :: "string option"

record sklearn =
  fit_transform :: "tfidf_params \<Rightarrow> string list \<Rightarrow> error + (vectorizer \<times> real list list)"
  fit :: "logreg_params \<Rightarrow> real list list \<Rightarrow> int list \<Rightarrow> error + classifier"

subsection \<open>Model store (\<^verbatim>\<open>ml_model.py\<close> lines 9-23 and 104-117)\<close>

definition MODEL_DIR :: string where
  "MODEL_DIR = ''models''"

text \<open>\<^verbatim>\<open>str.replace\<close> with one-character arguments.\<close>

definition replace_char :: "char \<Rightarrow> char \<Rightarrow> string \<Rightarrow> string" where
  "replace_char old new s = map (\<lambda>c. if c = old then new else c) s"

text \<open>
  \<^verbatim>\<open>_model_path\<close>: \<^verbatim>\<open>os.path.join(MODEL_DIR, f"model_{safe}.pkl")\<close> with POSIX separators.
  (An Isabelle name cannot start with an underscore.)
\<close>

definition model_path :: "string \<Rightarrow> string" where
  "model_path job_field =
     (let safe = replace_char (CHR '' '') (CHR ''_'') (replace_char (CHR ''/'') (CHR ''_'') job_field)
      in MODEL_DIR @ ''/'' @ ''model_'' @ safe @ ''.pkl'')"

text \<open>\<^verbatim>\<open>_load_model_bundle\<close>: \<open>None\<close> when no file exists at the path.\<close>

definition load_model_bundle :: "world \<Rightarrow> string \<Rightarrow> model_bundle option" where
  "load_model_bundle w job_field = models w (model_path job_field)"

text \<open>
  \<^verbatim>\<open>open(path, "wb")\<close> of line 97, as the exception it raises, if any. Python refuses
  a path with a NUL character with \<^verbatim>\<open>ValueError\<close>; the operating system refuses with
  \<^verbatim>\<open>OSError\<close> a file name (the part after the last \<^verbatim>\<open>/\<close>) longer than \<open>NAME_MAX\<close>,
  255 bytes on the usual Linux file systems, and the paths that are \<open>unwritable\<close>. A
  failure of \<^verbatim>\<open>pickle.dump\<close> after the file has been opened is not modelled.
\<close>

definition NAME_MAX :: nat where
  "NAME_MAX = 255"

definition file_name :: "string \<Rightarrow> string" where
  "file_name path = rev (takeWhile (\<lambda>c. c \<noteq> CHR ''/'') (rev path))"

definition open_wb :: "world \<Rightarrow> string \<Rightarrow> error option" where
  "open_wb w path =
     (if CHR 0x00 \<in> set path then Some ValueError
      else if NAME_MAX < length (file_name path) \<or> unwritable w path then Some OSError
      else None)"

subsection \<open>Trainer (\<^verbatim>\<open>ml_model.py\<close> lines 26-101)\<close>

text \<open>
  The query of lines 46-54: every swipe joined with the resume it refers to, kept when
  the resume's \<^verbatim>\<open>job_field\<close> equals the argument (SQLite compares text byte by byte).
\<close>

definition training_rows :: "world \<Rightarrow> string \<Rightarrow> (string \<times> int) list" where
  "training_rows w job_field =
     concat (map (\<lambda>s. map (\<lambda>r. (r_text r, s_label s))
                        (filter (\<lambda>r. s_resume_id s = r_id r \<and> r_job_field r = job_field) (resumes w)))
                 (swipes w))"

definition train_model :: "sklearn \<Rightarrow> string \<Rightarrow> world \<Rightarrow> (error + nat) \<times> world" where
  "train_model lib job_field w0 =
     (let w = w0\<lparr>train_calls := train_calls w0 @ [job_field]\<rparr>;
          rows = training_rows w job_field
      in if rows = [] then (Inr 0, w)
         else
           let texts = map fst rows; labels = map snd rows
           in if card (set labels) < 2
              then (Inr 0, w\<lparr>stdout := stdout w @ [NotTraining job_field (length labels)]\<rparr>)
              else
                (case fit_transform lib \<lparr>stop_words = Some ''english'', max_features = Some 5000\<rparr> texts of
                   Inl e \<Rightarrow> (Inl e, w)
                 | Inr (vec, X) \<Rightarrow>
                     (case fit lib \<lparr>max_iter = 1000, class_weight = Some ''balanced''\<rparr> X labels of
                        Inl e \<Rightarrow> (Inl e, w)
                      | Inr mdl \<Rightarrow>
                          (case open_wb w (model_path job_field) of
                             Some e \<Rightarrow> (Inl e, w)
                           | None \<Rightarrow>
                               (Inr (length texts),
                                w\<lparr>models := (models w)(model_path job_field \<mapsto>
                                     \<lparr>b_vectorizer = vec, b_model = mdl\<rparr>)\<rparr>)))))"

subsection \<open>Scorer (\<^verbatim>\<open>ml_model.py\<close> lines 120-148)\<close>

text \<open>
  Modelled from the spec: \<^verbatim>\<open>vectorizer.transform\<close> and \<^verbatim>\<open>model.predict_proba\<close> of the
  external library, which are not part of the repository. A text is cut into words at
  spaces; the feature of a vocabulary term is its weight times the number of times the
  term occurs among the words, so a text that shares no word with the vocabulary gets
  the all-zero vector. The classifier turns its linear score into the pair
  \<^verbatim>\<open>[P(class 0), P(class 1)]\<close> with the logistic function.
\<close>

fun tokens_from :: "string \<Rightarrow> string \<Rightarrow> string list" where
  "tokens_from cur [] = (if cur = [] then [] else [cur])"
| "tokens_from cur (c # cs) =
     (if c = CHR '' ''
      then (if cur = [] then tokens_from [] cs else cur # tokens_from [] cs)
      else tokens_from (cur @ [c]) cs)"

definition tokens :: "string \<Rightarrow> string list" where
  "tokens s = tokens_from [] s"

definition transform :: "vectorizer \<Rightarrow> string list \<Rightarrow> real list list" where
  "transform v texts =
     map (\<lambda>t. map (\<lambda>(word, wt). wt * real (count_list (tokens t) word))
                 (zip (vocabulary v) (idf v)))
         texts"

definition sigmoid :: "real \<Rightarrow> real" where
  "sigmoid z = 1 / (1 + exp (- z))"

definition decision_function :: "classifier \<Rightarrow> real list \<Rightarrow> real" where
  "decision_function m x = intercept m + sum_list (map (\<lambda>(c, xi). c * xi) (zip (coef m) x))"

definition predict_proba :: "classifier \<Rightarrow> real list list \<Rightarrow> real list list" where
  "predict_proba m X = map (\<lambda>x. let p = sigmoid (decision_function m x) in [1 - p, p]) X"

text \<open>Python's \<^verbatim>\<open>xs[i]\<close> for an index that is not negative: out of range raises.\<close>

definition getitem :: "'a list \<Rightarrow> nat \<Rightarrow> error + 'a" where
  "getitem xs i = (if i < length xs then Inr (xs ! i) else Inl IndexError)"

text \<open>
  \<^verbatim>\<open>score_text\<close>: \<open>Inr None\<close> is the returned \<^verbatim>\<open>None\<close>, \<open>Inr (Some p)\<close> a returned
  probability, \<open>Inl e\<close> an exception that escapes.
\<close>

definition score_text :: "world \<Rightarrow> string \<Rightarrow> string \<Rightarrow> error + real option" where
  "score_text w text job_field =
     (case load_model_bundle w job_field of
        None \<Rightarrow> Inr None
      | Some b \<Rightarrow>
          (let X = transform (b_vectorizer b) [text]
           in case getitem (predict_proba (b_model b) X) 0 of
                Inl e \<Rightarrow> Inl e
              | Inr row \<Rightarrow>
                  (case getitem row 1 of
                     Inl e \<Rightarrow> Inl e
                   | Inr prob \<Rightarrow> Inr (Some prob))))"

subsection \<open>Feedback message (\<^verbatim>\<open>app.py\<close> lines 577-607)\<close>

text \<open>
  The four texts assigned to \<^verbatim>\<open>feedback_message\<close>, in the order of the source:
  "doesn't have enough recruiter swipe data yet", "currently scores very well",
  "in a solid range, but there's room to improve", "might not perform as well".
\<close>

datatype feedback_message = NotEnoughData | ScoresVeryWell | SolidRange | MightNotPerform

text \<open>
  The pair \<^verbatim>\<open>(score_pct, feedback_message)\<close> computed from \<^verbatim>\<open>raw_score\<close>. The score is
  a float and line 588 computes \<^verbatim>\<open>round(raw_score * 100)\<close> in float arithmetic, which
  has no counterpart here: the type of scores and that computation, \<open>round_times_100\<close>,
  are parameters.
\<close>

definition feedback_of_score :: "('score \<Rightarrow> int) \<Rightarrow> 'score option \<Rightarrow> int option \<times> feedback_message" where
  "feedback_of_score round_times_100 raw_score =
     (case raw_score of
        None \<Rightarrow> (None, NotEnoughData)
      | Some p \<Rightarrow>
          (let score_pct = round_times_100 p
           in if 80 \<le> score_pct then (Some score_pct, ScoresVeryWell)
              else if 50 \<le> score_pct then (Some score_pct, SolidRange)
              else (Some score_pct, MightNotPerform)))"

subsection \<open>Swipe route (\<^verbatim>\<open>app.py\<close> lines 334-443)\<close>

text \<open>
  The keys of the Flask session that the route reads or writes; a key that is absent is
  \<open>None\<close>. \<open>flashes\<close> holds the messages queued by \<^verbatim>\<open>flash\<close>.
\<close>

record session =
  user_id :: "int option"
  role :: "string option"
  swipe_field :: "string option"
  swipe_order :: "int list option"
  swipe_index :: "nat option"
  flashes :: "string list"

datatype http_method = GET | POST

text \<open>
  The request: \<open>form_resume_id\<close> is the outcome of
  \<^verbatim>\<open>int(request.form.get("resume_id"))\<close>, which raises on a missing or non-numeric field.
\<close>

record request =
  http_method :: http_method
  form_choice :: "string option"
  form_resume_id :: "error + int"

datatype response =
  Redirect string
| Render string
| RenderSwipe resume_row user_row

definition flash :: "string \<Rightarrow> session \<Rightarrow> session" where
  "flash msg sess = sess\<lparr>flashes := flashes sess @ [msg]\<rparr>"

text \<open>
  Lines 357-373: the order of resume ids kept in the session, built and shuffled when
  the session has none. \<^verbatim>\<open>random.shuffle\<close> is the parameter \<open>shuffle\<close>.
\<close>

definition swipe_order_of ::
  "(int list \<Rightarrow> int list) \<Rightarrow> string \<Rightarrow> session \<Rightarrow> world \<Rightarrow> (response \<times> session) + (int list \<times> nat \<times> session)" where
  "swipe_order_of shuffle job_field sess w =
     (case swipe_order sess of
        Some order \<Rightarrow> Inr (order, (case swipe_index sess of None \<Rightarrow> 0 | Some i \<Rightarrow> i), sess)
      | None \<Rightarrow>
          (let rows = filter (\<lambda>r. r_job_field r = job_field) (resumes w)
           in if rows = []
              then Inl (Redirect ''swipe_select'', flash ''No resumes available yet for this field.'' sess)
              else
                (let order = shuffle (map r_id rows)
                 in Inr (order, 0, sess\<lparr>swipe_order := Some order, swipe_index := Some 0\<rparr>))))"

text \<open>The count of lines 402-410: the rows of the join of swipes and resumes for the field.\<close>

definition field_swipe_count :: "world \<Rightarrow> string \<Rightarrow> nat" where
  "field_swipe_count w job_field =
     length (concat (map (\<lambda>s. filter (\<lambda>r. s_resume_id s = r_id r \<and> r_job_field r = job_field) (resumes w))
                         (swipes w)))"

text \<open>
  Lines 376-420, the body of \<^verbatim>\<open>if request.method == "POST"\<close>, for the recruiter
  \<open>recruiter_id\<close> and the position \<open>index\<close>: the exception that escapes, if any, with the
  session and the state it leaves.
\<close>

definition record_swipe ::
  "sklearn \<Rightarrow> request \<Rightarrow> string \<Rightarrow> int \<Rightarrow> nat \<Rightarrow> session \<Rightarrow> world \<Rightarrow> error option \<times> session \<times> world" where
  "record_swipe lib req job_field recruiter_id index sess w =
     (case form_resume_id req of
        Inl e \<Rightarrow> (Some e, sess, w)
      | Inr resume_id \<Rightarrow>
          (let label = (if form_choice req = Some ''mash'' \<or> form_choice req = Some ''like'' then 1 else 0);
               existing_swipe = filter (\<lambda>s. s_resume_id s = resume_id \<and> s_user_id s = recruiter_id) (swipes w)
           in if existing_swipe = []
              then
                (let w1 = w\<lparr>swipes := swipes w @
                             [\<lparr>s_resume_id = resume_id, s_user_id = recruiter_id, s_label = label\<rparr>]\<rparr>;
                     count = field_swipe_count w1 job_field
                 in if count mod 10 = 0
                    then
                      (case train_model lib job_field w1 of
                         (Inl e, w2) \<Rightarrow> (Some e, sess, w2)
                       | (Inr used, w2) \<Rightarrow>
                           (None, sess\<lparr>swipe_index := Some (index + 1)\<rparr>,
                            w2\<lparr>stdout := stdout w2 @ [Retrained job_field used count]\<rparr>))
                    else (None, sess\<lparr>swipe_index := Some (index + 1)\<rparr>, w1))
              else (None, sess\<lparr>swipe_index := Some (index + 1)\<rparr>, w)))"

text \<open>Lines 422-443: the page for position \<open>index\<close> of the order.\<close>

definition render_current :: "int list \<Rightarrow> nat \<Rightarrow> world \<Rightarrow> error + response" where
  "render_current order index w =
     (if length order \<le> index then Inr (Render ''swipe_done.html'')
      else
        (let current_resume_id = order ! index;
             rows = concat (map (\<lambda>r. map (\<lambda>u. (r, u)) (filter (\<lambda>u. r_user_id r = u_id u) (users w)))
                                (filter (\<lambda>r. r_id r = current_resume_id) (resumes w)))
         in case getitem rows 0 of
              Inl e \<Rightarrow> Inl e
            | Inr (r, u) \<Rightarrow> Inr (RenderSwipe r u)))"

text \<open>
  The route with its \<^verbatim>\<open>login_required\<close> wrapper: the response or the exception that
  escapes, the session and the state after the request.
\<close>

definition swipe ::
  "(int list \<Rightarrow> int list) \<Rightarrow> sklearn \<Rightarrow> request \<Rightarrow> session \<Rightarrow> world \<Rightarrow> (error + response) \<times> session \<times> world" where
  "swipe shuffle lib req sess w =
     (case user_id sess of
        None \<Rightarrow> (Inr (Redirect ''login''), flash ''Please log in first.'' sess, w)
      | Some recruiter_id \<Rightarrow>
          if role sess \<noteq> Some ''recruiter''
          then (Inr (Redirect ''index''), flash ''Only recruiters can swipe resumes.'' sess, w)
          else if swipe_field sess = None \<or> swipe_field sess = Some []
          then (Inr (Redirect ''swipe_select''), flash ''Please choose a job field first.'' sess, w)
          else
            (let job_field = the (swipe_field sess)
             in case swipe_order_of shuffle job_field sess w of
                  Inl (resp, sess1) \<Rightarrow> (Inr resp, sess1, w)
                | Inr (order, index, sess1) \<Rightarrow>
                    (case http_method req of
                       GET \<Rightarrow> (render_current order index w, sess1, w)
                     | POST \<Rightarrow>
                         (case record_swipe lib req job_field recruiter_id index sess1 w of
                            (Some e, sess2, w2) \<Rightarrow> (Inl e, sess2, w2)
                          | (None, sess2, w2) \<Rightarrow> (render_current order (index + 1) w2, sess2, w2)))))"

subsection \<open>Concrete data for the examples\<close>

text \<open>A library whose fitting always succeeds with a one-word vocabulary, and one whose
  vectorizer fitting raises.\<close>

definition example_lib :: sklearn where
  "example_lib =
     \<lparr>fit_transform = (\<lambda>p texts. Inr (\<lparr>vocabulary = [''python''], idf = [1]\<rparr>,
                                        transform \<lparr>vocabulary = [''python''], idf = [1]\<rparr> texts)),
      fit = (\<lambda>p X labels. Inr \<lparr>coef = [1], intercept = 0\<rparr>)\<rparr>"

definition failing_lib :: sklearn where
  "failing_lib =
     \<lparr>fit_transform = (\<lambda>p texts. Inl ValueError),
      fit = (\<lambda>p X labels. Inr \<lparr>coef = [1], intercept = 0\<rparr>)\<rparr>"

definition empty_world :: world where
  "empty_world =
     \<lparr>users = [], resumes = [], swipes = [], models = Map.empty, unwritable = (\<lambda>path. False),
      stdout = [], train_calls = []\<rparr>"

text \<open>Two resumes of the field \<^verbatim>\<open>"a b"\<close>, one liked and one passed by recruiter 7.\<close>

definition two_class_world :: world where
  "two_class_world = empty_world
     \<lparr>users := [\<lparr>u_id = 1, u_first_name = ''Ada'', u_last_name = ''Lovelace''\<rparr>],
      resumes := [\<lparr>r_id = 1, r_user_id = 1, r_filename = ''one.pdf'', r_text = ''python developer'', r_job_field = ''a b''\<rparr>,
                  \<lparr>r_id = 2, r_user_id = 1, r_filename = ''two.pdf'', r_text = ''sales'', r_job_field = ''a b''\<rparr>],
      swipes := [\<lparr>s_resume_id = 1, s_user_id = 7, s_label = 1\<rparr>,
                 \<lparr>s_resume_id = 2, s_user_id = 7, s_label = 0\<rparr>]\<rparr>"

text \<open>The same resumes, both liked, with a bundle already stored for the field.\<close>

definition one_class_world :: world where
  "one_class_world = two_class_world
     \<lparr>swipes := [\<lparr>s_resume_id = 1, s_user_id = 7, s_label = 1\<rparr>,
                 \<lparr>s_resume_id = 2, s_user_id = 7, s_label = 1\<rparr>],
      models := [model_path ''a b'' \<mapsto> \<lparr>b_vectorizer = \<lparr>vocabulary = [''python''], idf = [1]\<rparr>,
                                         b_model = \<lparr>coef = [1], intercept = 0\<rparr>\<rparr>]\<rparr>"

text \<open>
  One resume of the field \<^verbatim>\<open>"software"\<close> liked by the recruiters 1 to 9, the same after
  recruiter 10 has liked it too, the session of recruiter 10 and the request that likes
  resume 1.
\<close>

definition nine_swipe_world :: world where
  "nine_swipe_world = empty_world
     \<lparr>users := [\<lparr>u_id = 1, u_first_name = ''Ada'', u_last_name = ''Lovelace''\<rparr>],
      resumes := [\<lparr>r_id = 1, r_user_id = 1, r_filename = ''one.pdf'', r_text = ''python developer'',
                   r_job_field = ''software''\<rparr>],
      swipes := map (\<lambda>u. \<lparr>s_resume_id = 1, s_user_id = u, s_label = 1\<rparr>) [1, 2, 3, 4, 5, 6, 7, 8, 9]\<rparr>"

definition recruiter_session :: session where
  "recruiter_session =
     \<lparr>user_id = Some 10, role = Some ''recruiter'', swipe_field = Some ''software'',
      swipe_order = Some [1], swipe_index = Some 0, flashes = []\<rparr>"

definition like_request :: request where
  "like_request = \<lparr>http_method = POST, form_choice = Some ''like'', form_resume_id = Inr 1\<rparr>"

definition ten_swipe_world :: world where
  "ten_swipe_world = nine_swipe_world
     \<lparr>swipes := swipes nine_swipe_world @ [\<lparr>s_resume_id = 1, s_user_id = 10, s_label = 1\<rparr>]\<rparr>"

text \<open>
  A finance resume liked by the recruiters 1 to 9 beside a software resume without
  swipes, and the request that likes the finance resume.
\<close>

definition cross_field_world :: world where
  "cross_field_world = empty_world
     \<lparr>users := [\<lparr>u_id = 1, u_first_name = ''Ada'', u_last_name = ''Lovelace''\<rparr>],
      resumes := [\<lparr>r_id = 1, r_user_id = 1, r_filename = ''one.pdf'', r_text = ''python developer'',
                   r_job_field = ''software''\<rparr>,
                  \<lparr>r_id = 2, r_user_id = 1, r_filename = ''two.pdf'', r_text = ''equity research'',
                   r_job_field = ''finance''\<rparr>],
      swipes := map (\<lambda>u. \<lparr>s_resume_id = 2, s_user_id = u, s_label = 1\<rparr>) [1, 2, 3, 4, 5, 6, 7, 8, 9]\<rparr>"

definition cross_field_request :: request where
  "cross_field_request = \<lparr>http_method = POST, form_choice = Some ''like'', form_resume_id = Inr 2\<rparr>"

text \<open>The two resumes of \<open>two_class_world\<close> under a field name of 300 characters.\<close>

definition long_field :: string where
  "long_field = replicate 300 (CHR ''a'')"

definition long_field_world :: world where
  "long_field_world = two_class_world
     \<lparr>resumes := [\<lparr>r_id = 1, r_user_id = 1, r_filename = ''one.pdf'', r_text = ''python developer'', r_job_field = long_field\<rparr>,
                  \<lparr>r_id = 2, r_user_id = 1, r_filename = ''two.pdf'', r_text = ''sales'', r_job_field = long_field\<rparr>]\<rparr>"

text \<open>
  The value of \<^verbatim>\<open>round(raw_score * 100)\<close> at five floats, each named by its Python
  literal; \<^verbatim>\<open>0.495 * 100\<close> is the float 49.5, which rounds to the even 50.
\<close>

definition example_round_times_100 :: "string \<Rightarrow> int" where
  "example_round_times_100 literal =
     (if literal = ''0.8'' then 80
      else if literal = ''0.79'' then 79
      else if literal = ''0.5'' then 50
      else if literal = ''0.495'' then 50
      else 49)"

subsection \<open>Opening the model file\<close>

lemma training_rows_train_calls [simp]:
  "training_rows (w\<lparr>train_calls := c\<rparr>) f = training_rows w f"
  by (simp add: training_rows_def)

lemma takeWhile_until:
  "\<forall>a \<in> set as. P a \<Longrightarrow> \<not> P b \<Longrightarrow> takeWhile P (as @ b # bs) = as"
  by (induction as) simp_all

lemma file_name_after_slash:
  assumes "CHR ''/'' \<notin> set ys"
  shows "file_name (xs @ CHR ''/'' # ys) = ys"
proof -
  have "\<forall>a \<in> set (rev ys). a \<noteq> CHR ''/''" using assms by auto
  then have "takeWhile (\<lambda>c. c \<noteq> CHR ''/'') (rev ys @ CHR ''/'' # rev xs) = rev ys"
    by (rule takeWhile_until) simp
  then show ?thesis by (simp add: file_name_def)
qed

lemma safe_no_slash:
  "CHR ''/'' \<notin> set (replace_char (CHR '' '') (CHR ''_'') (replace_char (CHR ''/'') (CHR ''_'') f))"
  by (auto simp: replace_char_def)

lemma file_name_model_path:
  "file_name (model_path f)
     = ''model_'' @ replace_char (CHR '' '') (CHR ''_'') (replace_char (CHR ''/'') (CHR ''_'') f) @ ''.pkl''"
proof -
  let ?safe = "replace_char (CHR '' '') (CHR ''_'') (replace_char (CHR ''/'') (CHR ''_'') f)"
  have "CHR ''/'' \<notin> set (''model_'' @ ?safe @ ''.pkl'')"
    using safe_no_slash [of f] by simp
  then have "file_name (''models'' @ CHR ''/'' # (''model_'' @ ?safe @ ''.pkl'')) = ''model_'' @ ?safe @ ''.pkl''"
    by (rule file_name_after_slash)
  then show ?thesis by (simp add: model_path_def MODEL_DIR_def Let_def)
qed

lemma length_file_name_model_path: "length (file_name (model_path f)) = length f + 10"
  by (simp add: file_name_model_path replace_char_def)

lemma nul_in_model_path: "CHR 0x00 \<in> set (model_path f) \<longleftrightarrow> CHR 0x00 \<in> set f"
  by (auto simp: model_path_def MODEL_DIR_def Let_def replace_char_def split: if_splits)

text \<open>
  For the path of a model file the outcome of \<open>open_wb\<close> is read off the field name.
\<close>

lemma open_wb_model_path:
  "open_wb w (model_path f)
     = (if CHR 0x00 \<in> set f then Some ValueError
        else if 245 < length f \<or> unwritable w (model_path f) then Some OSError
        else None)"
  by (auto simp: open_wb_def nul_in_model_path length_file_name_model_path NAME_MAX_def)

subsection \<open>Trainer: degenerate data\<close>

text \<open>
  C1. When the rows fetched for a field are empty, or carry fewer than two distinct
  labels, \<open>train_model\<close> returns 0 without raising and the model files are exactly what
  they were, so a bundle already stored for the field stays and none is written.
\<close>

theorem train_model_degenerate:
  assumes "training_rows w f = [] \<or> card (set (map snd (training_rows w f))) < 2"
  shows "fst (train_model lib f w) = Inr 0 \<and> models (snd (train_model lib f w)) = models w"
  using assms by (auto simp: train_model_def Let_def)

lemma two_class_rows:
  "training_rows two_class_world ''a b'' = [(''python developer'', 1), (''sales'', 0)]"
  by (simp add: training_rows_def two_class_world_def empty_world_def)

lemma one_class_rows:
  "training_rows one_class_world ''a b'' = [(''python developer'', 1), (''sales'', 1)]"
  by (simp add: training_rows_def one_class_world_def two_class_world_def empty_world_def)

theorem train_model_degenerate_witness:
  "card (set (map snd (training_rows one_class_world ''a b''))) < 2
   \<and> fst (train_model failing_lib ''a b'' one_class_world) = Inr 0
   \<and> models (snd (train_model failing_lib ''a b'' one_class_world)) = models one_class_world"
  using train_model_degenerate [of one_class_world "''a b''" failing_lib]
  by (simp add: one_class_rows)

subsection \<open>Trainer: two-class data\<close>

lemma two_labels_card:
  assumes "(0::int) \<in> set ls" "1 \<in> set ls"
  shows "\<not> card (set ls) < 2"
proof -
  have "{0, 1} \<subseteq> set ls" using assms by simp
  then have "card {0::int, 1} \<le> card (set ls)" by (intro card_mono) simp_all
  then show ?thesis by simp
qed

lemma open_wb_train_calls [simp]:
  "open_wb (w\<lparr>train_calls := c\<rparr>) path = open_wb w path"
  by (simp add: open_wb_def)

text \<open>
  C3. When the rows fetched for a field carry both labels 0 and 1 (hence are not empty),
  the two fitting calls of the library return and the field's model file can be opened
  for writing, \<open>train_model\<close> has called the vectorizer fitting on all texts with the
  stop-word list and the vocabulary bound, the classifier fitting on the resulting
  features and all labels with balanced class weights, has stored exactly these two
  artifacts as one bundle at the field's path, whatever was stored there before, and
  returns the number of rows.
\<close>

theorem train_model_success:
  assumes "(0::int) \<in> set (map snd (training_rows w f))"
    and "1 \<in> set (map snd (training_rows w f))"
    and "fit_transform lib \<lparr>stop_words = Some ''english'', max_features = Some 5000\<rparr>
           (map fst (training_rows w f)) = Inr (vec, X)"
    and "fit lib \<lparr>max_iter = 1000, class_weight = Some ''balanced''\<rparr> X
           (map snd (training_rows w f)) = Inr mdl"
    and "open_wb w (model_path f) = None"
  shows "fst (train_model lib f w) = Inr (length (training_rows w f))
     \<and> models (snd (train_model lib f w))
         = (models w)(model_path f \<mapsto> \<lparr>b_vectorizer = vec, b_model = mdl\<rparr>)
     \<and> load_model_bundle (snd (train_model lib f w)) f = Some \<lparr>b_vectorizer = vec, b_model = mdl\<rparr>"
proof -
  have ne: "training_rows w f \<noteq> []" using assms(1) by auto
  have two: "\<not> card (set (map snd (training_rows w f))) < 2"
    using assms(1,2) by (rule two_labels_card)
  show ?thesis
    using ne two assms(3,4,5) by (simp add: train_model_def Let_def load_model_bundle_def)
qed

lemma ex_transform: "transform \<lparr>vocabulary = [''python''], idf = [1]\<rparr> [''python developer'', ''sales''] = [[1],[0]]"
  by (simp add: transform_def tokens_def)

lemma two_class_open: "open_wb two_class_world (model_path ''a b'') = None"
  by (simp add: open_wb_model_path two_class_world_def empty_world_def)

theorem train_model_success_witness:
  "fst (train_model example_lib ''a b'' two_class_world) = Inr 2
   \<and> load_model_bundle (snd (train_model example_lib ''a b'' two_class_world)) ''a b''
       = Some \<lparr>b_vectorizer = \<lparr>vocabulary = [''python''], idf = [1]\<rparr>, b_model = \<lparr>coef = [1], intercept = 0\<rparr>\<rparr>"
  using train_model_success [of two_class_world "''a b''" example_lib
      "\<lparr>vocabulary = [''python''], idf = [1]\<rparr>" "[[1],[0]]" "\<lparr>coef = [1], intercept = 0\<rparr>"]
  by (simp add: two_class_rows example_lib_def ex_transform two_class_open)

lemma long_field_rows:
  "training_rows long_field_world long_field = [(''python developer'', 1), (''sales'', 0)]"
  by (simp add: training_rows_def long_field_world_def two_class_world_def empty_world_def)

lemma long_field_open: "open_wb w (model_path long_field) = Some OSError"
  by (simp add: open_wb_model_path long_field_def)

lemma long_field_world_fields:
  "models long_field_world = Map.empty" "train_calls long_field_world = []"
  by (simp_all add: long_field_world_def two_class_world_def empty_world_def)

text \<open>
  Without the two conditions the statement fails. For a field name of 300 characters
  the file name has 310, the file cannot be opened, and \<open>train_model\<close> raises after
  both fittings without storing a bundle; and a vectorizer fitting that raises leaves
  \<open>train_model\<close> with its exception. In both cases the rows carry both labels.
\<close>

theorem train_model_two_class_raises:
  "(0::int) \<in> set (map snd (training_rows long_field_world long_field))
   \<and> 1 \<in> set (map snd (training_rows long_field_world long_field))
   \<and> length long_field = 300
   \<and> fst (train_model example_lib long_field long_field_world) = Inl OSError
   \<and> load_model_bundle (snd (train_model example_lib long_field long_field_world)) long_field = None
   \<and> (0::int) \<in> set (map snd (training_rows two_class_world ''a b''))
   \<and> 1 \<in> set (map snd (training_rows two_class_world ''a b''))
   \<and> fst (train_model failing_lib ''a b'' two_class_world) = Inl ValueError
   \<and> load_model_bundle (snd (train_model failing_lib ''a b'' two_class_world)) ''a b'' = None"
proof -
  have f: "fit_transform example_lib p ts = Inr (\<lparr>vocabulary = [''python''], idf = [1]\<rparr>,
              transform \<lparr>vocabulary = [''python''], idf = [1]\<rparr> ts)" for p ts
    by (simp add: example_lib_def)
  have g: "fit example_lib q X ls = Inr \<lparr>coef = [1], intercept = 0\<rparr>" for q X ls
    by (simp add: example_lib_def)
  have a: "train_model example_lib long_field long_field_world
             = (Inl OSError, long_field_world\<lparr>train_calls := [long_field]\<rparr>)"
    by (simp add: train_model_def Let_def long_field_rows f g long_field_open long_field_world_fields)
  have h: "fit_transform failing_lib p ts = Inl ValueError" for p ts
    by (simp add: failing_lib_def)
  have tw: "models two_class_world = Map.empty" "train_calls two_class_world = []"
    by (simp_all add: two_class_world_def empty_world_def)
  have b: "train_model failing_lib ''a b'' two_class_world
             = (Inl ValueError, two_class_world\<lparr>train_calls := [''a b'']\<rparr>)"
    by (simp add: train_model_def Let_def two_class_rows h tw)
  show ?thesis
    by (simp add: a b long_field_rows two_class_rows load_model_bundle_def long_field_world_fields tw)
      (simp add: long_field_def)
qed

text \<open>
  C7. When the rows pass both guards and either fitting call raises, the exception
  leaves \<open>train_model\<close> and no model file has been touched: the bundle loaded for the
  field is the one from before the call.
\<close>

theorem train_model_fit_failure:
  assumes "training_rows w f \<noteq> []"
    and "\<not> card (set (map snd (training_rows w f))) < 2"
    and "fit_transform lib \<lparr>stop_words = Some ''english'', max_features = Some 5000\<rparr>
           (map fst (training_rows w f)) = Inl e
         \<or> (\<exists>vec X. fit_transform lib \<lparr>stop_words = Some ''english'', max_features = Some 5000\<rparr>
                (map fst (training_rows w f)) = Inr (vec, X)
              \<and> fit lib \<lparr>max_iter = 1000, class_weight = Some ''balanced''\<rparr> X
                  (map snd (training_rows w f)) = Inl e)"
  shows "fst (train_model lib f w) = Inl e
     \<and> models (snd (train_model lib f w)) = models w
     \<and> load_model_bundle (snd (train_model lib f w)) f = load_model_bundle w f"
  using assms by (auto simp: train_model_def Let_def load_model_bundle_def)

theorem train_model_fit_failure_witness:
  "fst (train_model failing_lib ''a b'' (one_class_world\<lparr>swipes := swipes two_class_world\<rparr>)) = Inl ValueError
   \<and> models (snd (train_model failing_lib ''a b'' (one_class_world\<lparr>swipes := swipes two_class_world\<rparr>)))
       = models one_class_world"
proof -
  have r: "training_rows (one_class_world\<lparr>swipes := swipes two_class_world\<rparr>) ''a b''
           = [(''python developer'', 1), (''sales'', 0)]"
    by (simp add: training_rows_def one_class_world_def two_class_world_def empty_world_def)
  show ?thesis
    using train_model_fit_failure [of "one_class_world\<lparr>swipes := swipes two_class_world\<rparr>" "''a b''" failing_lib ValueError]
    by (simp add: r failing_lib_def)
qed

subsection \<open>Scorer: a stored bundle always yields a probability\<close>

lemma sigmoid_bounds: "0 < sigmoid z \<and> sigmoid z < 1"
proof -
  have "0 < exp (- z)" by simp
  then show ?thesis by (simp add: sigmoid_def add_pos_pos)
qed

lemma transform_single:
  "transform v [t] = [map (\<lambda>(word, wt). wt * real (count_list (tokens t) word)) (zip (vocabulary v) (idf v))]"
  by (simp add: transform_def)

lemma score_text_bundle:
  assumes "load_model_bundle w f = Some b"
  shows "score_text w t f
         = Inr (Some (sigmoid (decision_function (b_model b)
              (map (\<lambda>(word, wt). wt * real (count_list (tokens t) word))
                   (zip (vocabulary (b_vectorizer b)) (idf (b_vectorizer b)))))))"
  using assms by (simp add: score_text_def transform_def predict_proba_def getitem_def Let_def)

lemma score_text_None_iff:
  "score_text w t f = Inr None \<longleftrightarrow> load_model_bundle w f = None"
proof (cases "load_model_bundle w f")
  case None
  then show ?thesis by (simp add: score_text_def)
next
  case (Some b)
  then show ?thesis by (simp add: score_text_bundle)
qed

text \<open>
  C6. When a bundle is stored for the field, \<open>score_text\<close> returns one number \<open>p\<close>
  with \<open>0 \<le> p \<le> 1\<close>, which is the entry for class 1 of the classifier's row
  \<open>[P(class 0), P(class 1)]\<close> for the vectorized text; and any two calls with the same
  text and field that load the same bundle return the same result.
\<close>

theorem score_text_probability:
  assumes "load_model_bundle w f = Some b"
  shows "(\<exists>p. score_text w t f = Inr (Some p) \<and> 0 \<le> p \<and> p \<le> 1
              \<and> predict_proba (b_model b) (transform (b_vectorizer b) [t]) = [[1 - p, p]])
       \<and> (\<forall>w'. load_model_bundle w' f = Some b \<longrightarrow> score_text w' t f = score_text w t f)"
proof -
  let ?x = "map (\<lambda>(word, wt). wt * real (count_list (tokens t) word))
                   (zip (vocabulary (b_vectorizer b)) (idf (b_vectorizer b)))"
  let ?p = "sigmoid (decision_function (b_model b) ?x)"
  have "score_text w t f = Inr (Some ?p)" using assms by (rule score_text_bundle)
  moreover have "0 \<le> ?p \<and> ?p \<le> 1" using sigmoid_bounds [of "decision_function (b_model b) ?x"] by simp
  moreover have "predict_proba (b_model b) (transform (b_vectorizer b) [t]) = [[1 - ?p, ?p]]"
    by (simp add: predict_proba_def transform_def Let_def)
  moreover have "\<forall>w'. load_model_bundle w' f = Some b \<longrightarrow> score_text w' t f = score_text w t f"
    using assms by (simp add: score_text_bundle)
  ultimately show ?thesis by blast
qed

theorem score_text_probability_witness:
  "\<exists>p. score_text one_class_world ''python python'' ''a b'' = Inr (Some p) \<and> 0 \<le> p \<and> p \<le> 1"
proof -
  have l: "load_model_bundle one_class_world ''a b''
       = Some \<lparr>b_vectorizer = \<lparr>vocabulary = [''python''], idf = [1]\<rparr>, b_model = \<lparr>coef = [1], intercept = 0\<rparr>\<rparr>"
    by (simp add: load_model_bundle_def one_class_world_def)
  show ?thesis
    using score_text_probability [OF l, of "''python python''"] by blast
qed

lemma zero_features:
  assumes "\<forall>word \<in> set (tokens t). word \<notin> set (vocabulary v)"
  shows "\<forall>x \<in> set (map (\<lambda>(word, wt). wt * real (count_list (tokens t) word)) (zip (vocabulary v) (idf v))). x = 0"
proof -
  have "count_list (tokens t) word = 0" if "word \<in> set (vocabulary v)" for word
    using that assms by (auto simp: count_list_0_iff)
  then show ?thesis by (auto dest: set_zip_leftD)
qed

lemma dot_zero:
  "\<forall>x \<in> set xs. x = (0::real) \<Longrightarrow> sum_list (map (\<lambda>(c, xi). c * xi) (zip cs xs)) = 0"
proof (induction cs arbitrary: xs)
  case Nil
  then show ?case by simp
next
  case (Cons c cs)
  then show ?case by (cases xs) simp_all
qed

text \<open>
  C8. When a bundle is stored for the field, \<open>score_text\<close> raises for no text and does
  not return \<open>None\<close>: the vectorizer yields exactly one feature row, and when no word
  of the text is in the vocabulary that row is all zero and the result is the
  probability the classifier gives to the zero vector.
\<close>

theorem score_text_never_raises:
  assumes "load_model_bundle w f = Some b"
  shows "(\<forall>e. score_text w t f \<noteq> Inl e) \<and> score_text w t f \<noteq> Inr None
       \<and> (\<exists>row. transform (b_vectorizer b) [t] = [row]
             \<and> ((\<forall>word \<in> set (tokens t). word \<notin> set (vocabulary (b_vectorizer b)))
                  \<longrightarrow> (\<forall>x \<in> set row. x = 0)
                      \<and> score_text w t f = Inr (Some (sigmoid (intercept (b_model b))))))"
proof -
  let ?row = "map (\<lambda>(word, wt). wt * real (count_list (tokens t) word))
                   (zip (vocabulary (b_vectorizer b)) (idf (b_vectorizer b)))"
  have s: "score_text w t f = Inr (Some (sigmoid (decision_function (b_model b) ?row)))"
    using assms by (rule score_text_bundle)
  have tr: "transform (b_vectorizer b) [t] = [?row]" by (rule transform_single)
  have z: "(\<forall>x \<in> set ?row. x = 0) \<and> score_text w t f = Inr (Some (sigmoid (intercept (b_model b))))"
    if h: "\<forall>word \<in> set (tokens t). word \<notin> set (vocabulary (b_vectorizer b))"
  proof -
    have a: "\<forall>x \<in> set ?row. x = 0" using h by (rule zero_features)
    then have "decision_function (b_model b) ?row = intercept (b_model b)"
      by (simp add: decision_function_def dot_zero)
    with s a show ?thesis by simp
  qed
  show ?thesis using s tr z by simp
qed

lemma tokens_example: "tokens ''no overlap at all'' = [''no'', ''overlap'', ''at'', ''all'']"
  by (simp add: tokens_def)

theorem score_text_never_raises_witness:
  "(\<forall>e. score_text one_class_world ''no overlap at all'' ''a b'' \<noteq> Inl e)
   \<and> transform \<lparr>vocabulary = [''python''], idf = [1]\<rparr> [''no overlap at all''] = [[0]]
   \<and> score_text one_class_world ''no overlap at all'' ''a b'' = Inr (Some (1 / 2))"
proof -
  have l: "load_model_bundle one_class_world ''a b''
       = Some \<lparr>b_vectorizer = \<lparr>vocabulary = [''python''], idf = [1]\<rparr>, b_model = \<lparr>coef = [1], intercept = 0\<rparr>\<rparr>"
    by (simp add: load_model_bundle_def one_class_world_def)
  have t: "transform \<lparr>vocabulary = [''python''], idf = [1]\<rparr> [''no overlap at all''] = [[0]]"
    by (simp add: transform_def tokens_example)
  have n: "\<forall>word \<in> set (tokens ''no overlap at all''). word \<notin> set [''python'']"
    by (simp add: tokens_example)
  have h: "sigmoid 0 = 1 / 2" by (simp add: sigmoid_def)
  show ?thesis
    using score_text_never_raises [OF l, of "''no overlap at all''"] t n h by simp
qed

subsection \<open>Model store: which fields share a file\<close>

text \<open>
  A call of \<open>train_model\<close> leaves the bundle loaded for every field with another path
  untouched, and \<open>score_text\<close> returns \<open>None\<close> exactly when no file is at the field's
  path.
\<close>

lemma train_model_frame:
  assumes "model_path g \<noteq> model_path f"
  shows "load_model_bundle (snd (train_model lib f w)) g = load_model_bundle w g"
  using assms
  by (auto simp: train_model_def Let_def load_model_bundle_def split: sum.splits prod.splits option.splits)

lemma path_ab: "model_path ''a b'' = ''models/model_a_b.pkl''" "model_path ''a_b'' = ''models/model_a_b.pkl''"
  by (simp_all add: model_path_def replace_char_def MODEL_DIR_def)

lemma trained_world:
  "train_model example_lib ''a b'' two_class_world
     = (Inr 2, two_class_world
          \<lparr>train_calls := [''a b''],
           models := [''models/model_a_b.pkl'' \<mapsto> \<lparr>b_vectorizer = \<lparr>vocabulary = [''python''], idf = [1]\<rparr>,
                                 b_model = \<lparr>coef = [1], intercept = 0\<rparr>\<rparr>]\<rparr>)"
proof -
  have c: "train_calls two_class_world = []" "models two_class_world = Map.empty"
    by (simp_all add: two_class_world_def empty_world_def)
  have f: "fit_transform example_lib p ts = Inr (\<lparr>vocabulary = [''python''], idf = [1]\<rparr>,
              transform \<lparr>vocabulary = [''python''], idf = [1]\<rparr> ts)" for p ts
    by (simp add: example_lib_def)
  have g: "fit example_lib q X ls = Inr \<lparr>coef = [1], intercept = 0\<rparr>" for q X ls
    by (simp add: example_lib_def)
  have o: "open_wb two_class_world ''models/model_a_b.pkl'' = None"
    using two_class_open by (simp add: path_ab)
  show ?thesis
    by (simp add: train_model_def Let_def two_class_rows c f g path_ab o)
qed


lemma trained_load:
  "load_model_bundle (snd (train_model example_lib ''a b'' two_class_world)) ''a_b''
       = Some \<lparr>b_vectorizer = \<lparr>vocabulary = [''python''], idf = [1]\<rparr>, b_model = \<lparr>coef = [1], intercept = 0\<rparr>\<rparr>"
  by (simp add: trained_world load_model_bundle_def path_ab)

text \<open>
  C5. The claim that every two distinct \<^verbatim>\<open>job_field\<close> strings have independent slots
  fails on the code: \<^verbatim>\<open>"a b"\<close> and \<^verbatim>\<open>"a_b"\<close> are distinct and have the same path, so
  a successful training for \<^verbatim>\<open>"a b"\<close> changes the bundle loaded for \<^verbatim>\<open>"a_b"\<close> from
  none to the new one.
\<close>

theorem model_path_collision:
  "''a b'' \<noteq> ''a_b''
   \<and> model_path ''a b'' = model_path ''a_b''
   \<and> load_model_bundle two_class_world ''a_b'' = None
   \<and> fst (train_model example_lib ''a b'' two_class_world) = Inr 2
   \<and> load_model_bundle (snd (train_model example_lib ''a b'' two_class_world)) ''a_b''
       = Some \<lparr>b_vectorizer = \<lparr>vocabulary = [''python''], idf = [1]\<rparr>, b_model = \<lparr>coef = [1], intercept = 0\<rparr>\<rparr>"
proof -
  have "load_model_bundle two_class_world ''a_b'' = None"
    by (simp add: load_model_bundle_def two_class_world_def empty_world_def)
  moreover have "fst (train_model example_lib ''a b'' two_class_world) = Inr 2"
    by (simp add: trained_world)
  moreover have "model_path ''a b'' = model_path ''a_b''"
    by (simp add: path_ab)
  ultimately show ?thesis
    using trained_load by simp
qed

text \<open>
  C4. The claim that a field without recorded swipes, never trained, is scored as absent
  fails on the code: after the successful training for \<^verbatim>\<open>"a b"\<close>, the field
  \<^verbatim>\<open>"a_b"\<close> still has no training rows and was never passed to \<open>train_model\<close>, and
  \<open>score_text\<close> returns the probability 1/2 for it.
\<close>

theorem score_text_collision:
  "training_rows (snd (train_model example_lib ''a b'' two_class_world)) ''a_b'' = []
   \<and> train_calls (snd (train_model example_lib ''a b'' two_class_world)) = [''a b'']
   \<and> score_text (snd (train_model example_lib ''a b'' two_class_world)) ''sales'' ''a_b'' = Inr (Some (1 / 2))"
proof -
  have "score_text (snd (train_model example_lib ''a b'' two_class_world)) ''sales'' ''a_b'' = Inr (Some (1 / 2))"
    using trained_load
    by (simp add: score_text_bundle tokens_def decision_function_def sigmoid_def)
  moreover have "training_rows (snd (train_model example_lib ''a b'' two_class_world)) ''a_b'' = []"
    unfolding trained_world by (simp add: training_rows_def two_class_world_def empty_world_def)
  moreover have "train_calls (snd (train_model example_lib ''a b'' two_class_world)) = [''a b'']"
    by (simp add: trained_world)
  ultimately show ?thesis by simp
qed

subsection \<open>Feedback: the three buckets\<close>

text \<open>
  C9. The feedback route chooses the message from the percentage \<open>score_pct\<close> it shows:
  80 or more gives the favourable message, 50 to 79 the mixed one, less than 50 the
  needs-improvement one; an absent score gives no percentage and the not-enough-data
  message. This holds whatever float arithmetic produces the percentage.
\<close>

theorem feedback_of_score_buckets:
  "feedback_of_score round_times_100 None = (None, NotEnoughData)
   \<and> fst (feedback_of_score round_times_100 (Some p)) = Some (round_times_100 p)
   \<and> (80 \<le> round_times_100 p \<longrightarrow> snd (feedback_of_score round_times_100 (Some p)) = ScoresVeryWell)
   \<and> (50 \<le> round_times_100 p \<and> round_times_100 p \<le> 79
        \<longrightarrow> snd (feedback_of_score round_times_100 (Some p)) = SolidRange)
   \<and> (round_times_100 p < 50 \<longrightarrow> snd (feedback_of_score round_times_100 (Some p)) = MightNotPerform)"
  by (simp add: feedback_of_score_def Let_def)

theorem feedback_of_score_buckets_witness:
  "feedback_of_score example_round_times_100 (Some ''0.8'') = (Some 80, ScoresVeryWell)
   \<and> feedback_of_score example_round_times_100 (Some ''0.79'') = (Some 79, SolidRange)
   \<and> feedback_of_score example_round_times_100 (Some ''0.5'') = (Some 50, SolidRange)
   \<and> feedback_of_score example_round_times_100 (Some ''0.495'') = (Some 50, SolidRange)
   \<and> feedback_of_score example_round_times_100 (Some ''0.49'') = (Some 49, MightNotPerform)"
proof -
  have r: "example_round_times_100 ''0.8'' = 80" "example_round_times_100 ''0.79'' = 79"
    "example_round_times_100 ''0.5'' = 50" "example_round_times_100 ''0.495'' = 50"
    "example_round_times_100 ''0.49'' = 49"
    by (simp_all add: example_round_times_100_def)
  show ?thesis
    using feedback_of_score_buckets [of example_round_times_100 "''0.8''"]
      feedback_of_score_buckets [of example_round_times_100 "''0.79''"]
      feedback_of_score_buckets [of example_round_times_100 "''0.5''"]
      feedback_of_score_buckets [of example_round_times_100 "''0.495''"]
      feedback_of_score_buckets [of example_round_times_100 "''0.49''"]
    by (simp add: r prod_eq_iff)
qed

subsection \<open>Swipe route: when the trainer runs\<close>

lemma train_model_tables:
  "swipes (snd (train_model lib f w)) = swipes w"
  "resumes (snd (train_model lib f w)) = resumes w"
  "users (snd (train_model lib f w)) = users w"
  "train_calls (snd (train_model lib f w)) = train_calls w @ [f]"
  by (auto simp: train_model_def Let_def split: sum.splits prod.splits option.splits)

lemma field_swipe_count_cong:
  "swipes w' = swipes w \<Longrightarrow> resumes w' = resumes w \<Longrightarrow> field_swipe_count w' f = field_swipe_count w f"
  by (simp add: field_swipe_count_def)

lemma field_swipe_count_training_rows:
  "field_swipe_count w f = length (training_rows w f)"
  by (simp add: field_swipe_count_def training_rows_def length_concat comp_def)

lemma field_swipe_count_insert:
  "field_swipe_count (w\<lparr>swipes := swipes w @ [s]\<rparr>) f
     = field_swipe_count w f + length (filter (\<lambda>r. s_resume_id s = r_id r \<and> r_job_field r = f) (resumes w))"
  by (simp add: field_swipe_count_def)

lemma record_swipe_world:
  assumes "form_resume_id req = Inr rid"
    and "\<forall>s \<in> set (swipes w). \<not> (s_resume_id s = rid \<and> s_user_id s = uid)"
  shows "snd (snd (record_swipe lib req f uid index sess1 w))
         = (let w1 = w\<lparr>swipes := swipes w @
                         [\<lparr>s_resume_id = rid, s_user_id = uid,
                           s_label = (if form_choice req = Some ''mash'' \<or> form_choice req = Some ''like'' then 1 else 0)\<rparr>]\<rparr>;
                count = field_swipe_count w1 f
            in if count mod 10 = 0
               then (case fst (train_model lib f w1) of
                       Inl e \<Rightarrow> snd (train_model lib f w1)
                     | Inr used \<Rightarrow> (snd (train_model lib f w1))
                          \<lparr>stdout := stdout (snd (train_model lib f w1)) @ [Retrained f used count]\<rparr>)
               else w1)"
proof -
  have "filter (\<lambda>s. s_resume_id s = rid \<and> s_user_id s = uid) (swipes w) = []"
    using assms(2) by (simp add: filter_empty_conv)
  then show ?thesis
    using assms(1) by (simp add: record_swipe_def Let_def split: sum.splits prod.splits)
qed

lemma swipe_post_world:
  assumes "user_id sess = Some uid" "role sess = Some ''recruiter''"
    and "swipe_field sess = Some f" "f \<noteq> []"
    and "swipe_order_of shuffle f sess w = Inr (order, index, sess1)"
    and "http_method req = POST"
  shows "snd (swipe shuffle lib req sess w) = snd (record_swipe lib req f uid index sess1 w)"
  using assms by (simp add: swipe_def split: prod.splits option.splits)

lemma swipe_new_swipe_world:
  assumes "user_id sess = Some uid" and "role sess = Some ''recruiter''"
    and "swipe_field sess = Some f" and "f \<noteq> []"
    and "swipe_order_of shuffle f sess w = Inr (order, index, sess1)"
    and "http_method req = POST"
    and "form_resume_id req = Inr rid"
    and "\<forall>s \<in> set (swipes w). \<not> (s_resume_id s = rid \<and> s_user_id s = uid)"
  shows "snd (snd (swipe shuffle lib req sess w))
         = (let w1 = w\<lparr>swipes := swipes w @
                         [\<lparr>s_resume_id = rid, s_user_id = uid,
                           s_label = (if form_choice req = Some ''mash'' \<or> form_choice req = Some ''like'' then 1 else 0)\<rparr>]\<rparr>;
                count = field_swipe_count w1 f
            in if count mod 10 = 0
               then (case fst (train_model lib f w1) of
                       Inl e \<Rightarrow> snd (train_model lib f w1)
                     | Inr used \<Rightarrow> (snd (train_model lib f w1))
                          \<lparr>stdout := stdout (snd (train_model lib f w1)) @ [Retrained f used count]\<rparr>)
               else w1)"
  unfolding swipe_post_world [OF assms(1-6)] record_swipe_world [OF assms(7,8)]
  by (rule refl)

text \<open>
  Whatever resume the new swipe refers to, the trainer runs exactly when the count of the
  session's field after the insertion is divisible by 10. The count is 0, and the
  trainer runs on no rows, when the field has no swipe and the swiped resume is not one
  of the field.
\<close>

lemma swipe_new_swipe_train_calls:
  assumes "user_id sess = Some uid" and "role sess = Some ''recruiter''"
    and "swipe_field sess = Some f" and "f \<noteq> []"
    and "swipe_order_of shuffle f sess w = Inr (order, index, sess1)"
    and "http_method req = POST"
    and "form_resume_id req = Inr rid"
    and "\<forall>s \<in> set (swipes w). \<not> (s_resume_id s = rid \<and> s_user_id s = uid)"
  shows "train_calls (snd (snd (swipe shuffle lib req sess w)))
         = (if field_swipe_count (w\<lparr>swipes := swipes w @
                         [\<lparr>s_resume_id = rid, s_user_id = uid,
                           s_label = (if form_choice req = Some ''mash'' \<or> form_choice req = Some ''like'' then 1 else 0)\<rparr>]\<rparr>) f mod 10 = 0
            then train_calls w @ [f] else train_calls w)"
  unfolding swipe_new_swipe_world [OF assms] Let_def
  by (auto simp: train_model_tables split: sum.splits)

text \<open>
  A POST of a recruiter that reaches the recording step with a resume of the session's
  field which this recruiter has not swiped yet appends the swipe; the count of the
  field's swipes in the state after the request includes it, so it is positive; and
  \<open>train_model\<close> has been called for the field within the request, on the state with
  the new swipe, exactly when that count is a positive multiple of 10.
\<close>

lemma swipe_in_field_retrains_on_tenth:
  assumes "user_id sess = Some uid" and "role sess = Some ''recruiter''"
    and "swipe_field sess = Some f" and "f \<noteq> []"
    and "swipe_order_of shuffle f sess w = Inr (order, index, sess1)"
    and "http_method req = POST"
    and "form_resume_id req = Inr rid"
    and "\<forall>s \<in> set (swipes w). \<not> (s_resume_id s = rid \<and> s_user_id s = uid)"
    and "\<exists>r \<in> set (resumes w). r_id r = rid \<and> r_job_field r = f"
  shows "let new_swipe = \<lparr>s_resume_id = rid, s_user_id = uid,
                s_label = (if form_choice req = Some ''mash'' \<or> form_choice req = Some ''like'' then 1 else 0)\<rparr>;
             w1 = w\<lparr>swipes := swipes w @ [new_swipe]\<rparr>;
             w' = snd (snd (swipe shuffle lib req sess w));
             count = field_swipe_count w' f
         in swipes w' = swipes w @ [new_swipe]
            \<and> count = field_swipe_count w1 f
            \<and> field_swipe_count w f < count
            \<and> (train_calls w' = train_calls w @ [f] \<longleftrightarrow> 0 < count \<and> count mod 10 = 0)
            \<and> (train_calls w' = train_calls w \<longleftrightarrow> \<not> (0 < count \<and> count mod 10 = 0))
            \<and> models w' = (if 0 < count \<and> count mod 10 = 0
                            then models (snd (train_model lib f w1)) else models w)"
proof -
  define new_swipe where "new_swipe = \<lparr>s_resume_id = rid, s_user_id = uid,
                s_label = (if form_choice req = Some ''mash'' \<or> form_choice req = Some ''like'' then 1 else (0::int))\<rparr>"
  define w1 where "w1 = w\<lparr>swipes := swipes w @ [new_swipe]\<rparr>"
  define w' where "w' = snd (snd (swipe shuffle lib req sess w))"
  define c1 where "c1 = field_swipe_count w1 f"
  have pos: "filter (\<lambda>r. s_resume_id new_swipe = r_id r \<and> r_job_field r = f) (resumes w) \<noteq> []"
    using assms(9) by (auto simp: filter_empty_conv new_swipe_def)
  have c1: "c1 = field_swipe_count w f
                 + length (filter (\<lambda>r. s_resume_id new_swipe = r_id r \<and> r_job_field r = f) (resumes w))"
    by (simp add: c1_def w1_def field_swipe_count_insert)
  have lt: "field_swipe_count w f < c1" using pos c1 by simp
  have w'_eq: "w' = (if c1 mod 10 = 0
               then (case fst (train_model lib f w1) of
                       Inl e \<Rightarrow> snd (train_model lib f w1)
                     | Inr used \<Rightarrow> (snd (train_model lib f w1))
                          \<lparr>stdout := stdout (snd (train_model lib f w1)) @ [Retrained f used c1]\<rparr>)
               else w1)"
    unfolding w'_def c1_def w1_def new_swipe_def swipe_new_swipe_world [OF assms(1-8)] Let_def
    by (rule refl)
  have sw: "swipes w' = swipes w1" and re: "resumes w' = resumes w1"
    and tc: "train_calls w' = (if c1 mod 10 = 0 then train_calls w @ [f] else train_calls w)"
    and mo: "models w' = (if c1 mod 10 = 0 then models (snd (train_model lib f w1)) else models w)"
    by (auto simp: w'_eq train_model_tables w1_def split: sum.splits)
  have cnt: "field_swipe_count w' f = c1"
    unfolding c1_def using sw re by (rule field_swipe_count_cong)
  have "swipes w' = swipes w @ [new_swipe]" using sw by (simp add: w1_def)
  moreover have "train_calls w' = train_calls w @ [f] \<longleftrightarrow> 0 < c1 \<and> c1 mod 10 = 0"
    using tc lt by auto
  moreover have "train_calls w' = train_calls w \<longleftrightarrow> \<not> (0 < c1 \<and> c1 mod 10 = 0)"
    using tc lt by auto
  moreover have "models w' = (if 0 < c1 \<and> c1 mod 10 = 0
                            then models (snd (train_model lib f w1)) else models w)"
    using mo lt by auto
  ultimately show ?thesis
    using cnt lt
    unfolding Let_def w'_def [symmetric] new_swipe_def [symmetric] w1_def [symmetric] c1_def [symmetric]
    by simp
qed

lemma recruiter_session_fields:
  "user_id recruiter_session = Some 10" "role recruiter_session = Some ''recruiter''"
  "swipe_field recruiter_session = Some ''software''"
  "swipe_order_of (\<lambda>xs. xs) ''software'' recruiter_session w = Inr ([1], 0, recruiter_session)"
  by (simp_all add: recruiter_session_def swipe_order_of_def)

lemma like_request_fields:
  "http_method like_request = POST" "form_resume_id like_request = Inr 1"
  "form_choice like_request = Some ''like''"
  by (simp_all add: like_request_def)

lemma nine_swipe_world_fields:
  "swipes nine_swipe_world = map (\<lambda>u. \<lparr>s_resume_id = 1, s_user_id = u, s_label = 1\<rparr>) [1, 2, 3, 4, 5, 6, 7, 8, 9]"
  "resumes nine_swipe_world = [\<lparr>r_id = 1, r_user_id = 1, r_filename = ''one.pdf'', r_text = ''python developer'',
                   r_job_field = ''software''\<rparr>]"
  "models nine_swipe_world = Map.empty" "train_calls nine_swipe_world = []"
  by (simp_all add: nine_swipe_world_def empty_world_def)

lemma ten_swipe_count: "field_swipe_count ten_swipe_world ''software'' = 10"
  by (simp add: ten_swipe_world_def field_swipe_count_def nine_swipe_world_fields)

lemma swipe_in_field_tenth_example:
  "field_swipe_count nine_swipe_world ''software'' = 9
   \<and> field_swipe_count (snd (snd (swipe (\<lambda>xs. xs) failing_lib like_request recruiter_session nine_swipe_world))) ''software'' = 10
   \<and> train_calls (snd (snd (swipe (\<lambda>xs. xs) failing_lib like_request recruiter_session nine_swipe_world))) = [''software'']"
proof -
  have h8: "\<forall>s \<in> set (swipes nine_swipe_world). \<not> (s_resume_id s = 1 \<and> s_user_id s = 10)"
    by (simp add: nine_swipe_world_fields)
  have h9: "\<exists>r \<in> set (resumes nine_swipe_world). r_id r = 1 \<and> r_job_field r = ''software''"
    by (simp add: nine_swipe_world_fields)
  have ne: "''software'' \<noteq> []" by simp
  have nine: "field_swipe_count nine_swipe_world ''software'' = 9"
    by (simp add: field_swipe_count_def nine_swipe_world_fields)
  have ten: "field_swipe_count (nine_swipe_world
        \<lparr>swipes := swipes nine_swipe_world @ [\<lparr>s_resume_id = 1, s_user_id = 10, s_label = 1\<rparr>]\<rparr>) ''software'' = 10"
    using ten_swipe_count by (simp add: ten_swipe_world_def)
  show ?thesis
    using swipe_in_field_retrains_on_tenth [OF recruiter_session_fields(1-3) ne recruiter_session_fields(4)
        like_request_fields(1,2) h8 h9, of failing_lib] nine ten
    by (simp add: Let_def like_request_fields nine_swipe_world_fields(4))
qed

lemma filter_id_le_one:
  "distinct (map r_id rs) \<Longrightarrow> length (filter (\<lambda>r. k = r_id r \<and> r_job_field r = f) rs) \<le> 1"
proof (induction rs)
  case Nil
  then show ?case by simp
next
  case (Cons r rs)
  show ?case
  proof (cases "k = r_id r")
    case True
    then have "filter (\<lambda>r. k = r_id r \<and> r_job_field r = f) rs = []"
      using Cons.prems by (auto simp: filter_empty_conv)
    then show ?thesis by (simp add: True [symmetric])
  next
    case False
    then show ?thesis using Cons by simp
  qed
qed

lemma filter_id_length:
  assumes "distinct (map r_id rs)"
  shows "length (filter (\<lambda>r. k = r_id r \<and> r_job_field r = f) rs)
         = (if \<exists>r \<in> set rs. r_id r = k \<and> r_job_field r = f then 1 else 0)"
proof (cases "\<exists>r \<in> set rs. r_id r = k \<and> r_job_field r = f")
  case True
  then have "filter (\<lambda>r. k = r_id r \<and> r_job_field r = f) rs \<noteq> []"
    by (auto simp: filter_empty_conv)
  then have "1 \<le> length (filter (\<lambda>r. k = r_id r \<and> r_job_field r = f) rs)"
    by (simp add: Suc_le_eq)
  with filter_id_le_one [OF assms, of k f] True show ?thesis by simp
next
  case False
  then have "filter (\<lambda>r. k = r_id r \<and> r_job_field r = f) rs = []"
    by (auto simp: filter_empty_conv)
  with False show ?thesis by simp
qed

text \<open>
  With resume ids that are distinct, as the primary key makes them, the count of the
  join is the number of swipes whose resume is one of the field.
\<close>

lemma field_swipe_count_spec:
  assumes "distinct (map r_id (resumes w))"
  shows "field_swipe_count w f
         = length (filter (\<lambda>s. \<exists>r \<in> set (resumes w). r_id r = s_resume_id s \<and> r_job_field r = f) (swipes w))"
proof -
  have "length (concat (map (\<lambda>s. filter (\<lambda>r. s_resume_id s = r_id r \<and> r_job_field r = f) (resumes w)) ss))
        = length (filter (\<lambda>s. \<exists>r \<in> set (resumes w). r_id r = s_resume_id s \<and> r_job_field r = f) ss)" for ss
    by (induction ss) (simp_all add: filter_id_length [OF assms])
  then show ?thesis by (simp add: field_swipe_count_def)
qed

lemma cross_field_world_fields:
  "swipes cross_field_world = map (\<lambda>u. \<lparr>s_resume_id = 2, s_user_id = u, s_label = 1\<rparr>) [1, 2, 3, 4, 5, 6, 7, 8, 9]"
  "resumes cross_field_world
     = [\<lparr>r_id = 1, r_user_id = 1, r_filename = ''one.pdf'', r_text = ''python developer'',
         r_job_field = ''software''\<rparr>,
        \<lparr>r_id = 2, r_user_id = 1, r_filename = ''two.pdf'', r_text = ''equity research'',
         r_job_field = ''finance''\<rparr>]"
  "models cross_field_world = Map.empty" "train_calls cross_field_world = []"
  "stdout cross_field_world = []"
  by (simp_all add: cross_field_world_def empty_world_def)

lemma cross_field_request_fields:
  "http_method cross_field_request = POST" "form_resume_id cross_field_request = Inr 2"
  "form_choice cross_field_request = Some ''like''"
  by (simp_all add: cross_field_request_def)

lemma train_model_no_rows:
  "training_rows w f = [] \<Longrightarrow> train_model lib f w = (Inr 0, w\<lparr>train_calls := train_calls w @ [f]\<rparr>)"
  by (simp add: train_model_def Let_def)

text \<open>
  C2. The claim that the trainer runs for the field of the recorded swipe exactly when
  that field's count is a positive multiple of 10 fails on the code. The session's field
  is \<^verbatim>\<open>"software"\<close> and the posted \<^verbatim>\<open>resume_id\<close> is that of a finance resume with nine
  swipes: the swipe is recorded as the tenth of \<^verbatim>\<open>"finance"\<close>, the count taken is
  that of \<^verbatim>\<open>"software"\<close>, which is 0, and \<open>train_model\<close> is called for \<^verbatim>\<open>"software"\<close>
  and not for \<^verbatim>\<open>"finance"\<close>.
\<close>

theorem swipe_cross_field_post:
  "r_job_field (resumes cross_field_world ! 1) = ''finance''
   \<and> r_id (resumes cross_field_world ! 1) = 2
   \<and> swipe_field recruiter_session = Some ''software''
   \<and> field_swipe_count cross_field_world ''finance'' = 9
   \<and> swipes (snd (snd (swipe (\<lambda>xs. xs) example_lib cross_field_request recruiter_session cross_field_world)))
       = swipes cross_field_world @ [\<lparr>s_resume_id = 2, s_user_id = 10, s_label = 1\<rparr>]
   \<and> field_swipe_count
        (snd (snd (swipe (\<lambda>xs. xs) example_lib cross_field_request recruiter_session cross_field_world)))
        ''finance'' = 10
   \<and> field_swipe_count
        (snd (snd (swipe (\<lambda>xs. xs) example_lib cross_field_request recruiter_session cross_field_world)))
        ''software'' = 0
   \<and> train_calls
        (snd (snd (swipe (\<lambda>xs. xs) example_lib cross_field_request recruiter_session cross_field_world)))
       = [''software'']
   \<and> stdout
        (snd (snd (swipe (\<lambda>xs. xs) example_lib cross_field_request recruiter_session cross_field_world)))
       = [Retrained ''software'' 0 0]"
proof -
  define w1 where "w1 = cross_field_world
     \<lparr>swipes := swipes cross_field_world @ [\<lparr>s_resume_id = 2, s_user_id = 10, s_label = 1\<rparr>]\<rparr>"
  define W where
    "W = snd (snd (swipe (\<lambda>xs. xs) example_lib cross_field_request recruiter_session cross_field_world))"
  have ne: "''software'' \<noteq> []" by simp
  have h8: "\<forall>s \<in> set (swipes cross_field_world). \<not> (s_resume_id s = 2 \<and> s_user_id s = 10)"
    by (simp add: cross_field_world_fields)
  have w1f: "swipes w1 = swipes cross_field_world @ [\<lparr>s_resume_id = 2, s_user_id = 10, s_label = 1\<rparr>]"
    "resumes w1 = resumes cross_field_world" "train_calls w1 = []" "stdout w1 = []"
    by (simp_all add: w1_def cross_field_world_fields)
  have soft: "field_swipe_count w1 ''software'' = 0"
    by (simp add: field_swipe_count_def w1f cross_field_world_fields)
  have fin: "field_swipe_count w1 ''finance'' = 10"
    by (simp add: field_swipe_count_def w1f cross_field_world_fields)
  have rows: "training_rows w1 ''software'' = []"
    using soft by (simp add: field_swipe_count_training_rows)
  have tm: "train_model example_lib ''software'' w1 = (Inr 0, w1\<lparr>train_calls := [''software'']\<rparr>)"
    using train_model_no_rows [OF rows, of example_lib] by (simp add: w1f)
  have "W = (let w1' = cross_field_world\<lparr>swipes := swipes cross_field_world @
                         [\<lparr>s_resume_id = 2, s_user_id = 10,
                           s_label = (if form_choice cross_field_request = Some ''mash''
                                        \<or> form_choice cross_field_request = Some ''like'' then 1 else 0)\<rparr>]\<rparr>;
                count = field_swipe_count w1' ''software''
            in if count mod 10 = 0
               then (case fst (train_model example_lib ''software'' w1') of
                       Inl e \<Rightarrow> snd (train_model example_lib ''software'' w1')
                     | Inr used \<Rightarrow> (snd (train_model example_lib ''software'' w1'))
                          \<lparr>stdout := stdout (snd (train_model example_lib ''software'' w1')) @ [Retrained ''software'' used count]\<rparr>)
               else w1')"
    unfolding W_def
    by (rule swipe_new_swipe_world [OF recruiter_session_fields(1-3) ne recruiter_session_fields(4)
          cross_field_request_fields(1,2) h8])
  then have W: "W = w1\<lparr>train_calls := [''software''], stdout := [Retrained ''software'' 0 0]\<rparr>"
    by (simp add: cross_field_request_fields(3) w1_def [symmetric] soft tm w1f)
  have a: "swipes W = swipes cross_field_world @ [\<lparr>s_resume_id = 2, s_user_id = 10, s_label = 1\<rparr>]"
    and b: "train_calls W = [''software'']" and c: "stdout W = [Retrained ''software'' 0 0]"
    by (simp_all add: W w1f)
  have "swipes W = swipes w1" "resumes W = resumes w1" by (simp_all add: W)
  then have d: "field_swipe_count W ''finance'' = 10" and e: "field_swipe_count W ''software'' = 0"
    using fin soft by (simp_all add: field_swipe_count_def)
  have f: "field_swipe_count cross_field_world ''finance'' = 9"
    by (simp add: field_swipe_count_def cross_field_world_fields)
  have g: "r_job_field (resumes cross_field_world ! 1) = ''finance''" "r_id (resumes cross_field_world ! 1) = 2"
    "swipe_field recruiter_session = Some ''software''"
    by (simp_all add: cross_field_world_fields recruiter_session_def)
  show ?thesis
    using a b c d e f g unfolding W_def by simp
qed

text \<open>
  C10. A POST of a recruiter for a resume this recruiter has already swiped leaves the
  whole state as it was: no swipe row is added, \<open>train_model\<close> is not called and no
  model file changes, whatever the field's count is. The session is the one with the
  swipe order in place (the given one when it had an order) with the position advanced
  by one.
\<close>

theorem swipe_duplicate_unchanged:
  assumes "user_id sess = Some uid" and "role sess = Some ''recruiter''"
    and "swipe_field sess = Some f" and "f \<noteq> []"
    and "swipe_order_of shuffle f sess w = Inr (order, index, sess1)"
    and "http_method req = POST"
    and "form_resume_id req = Inr rid"
    and "\<exists>s \<in> set (swipes w). s_resume_id s = rid \<and> s_user_id s = uid"
  shows "swipe shuffle lib req sess w
           = (render_current order (index + 1) w, sess1\<lparr>swipe_index := Some (index + 1)\<rparr>, w)
         \<and> (swipe_order sess \<noteq> None \<longrightarrow> sess1 = sess)"
proof -
  have ne: "filter (\<lambda>s. s_resume_id s = rid \<and> s_user_id s = uid) (swipes w) \<noteq> []"
    using assms(8) by (auto simp: filter_empty_conv)
  have r: "record_swipe lib req f uid index sess1 w = (None, sess1\<lparr>swipe_index := Some (index + 1)\<rparr>, w)"
    using ne assms(7) by (simp add: record_swipe_def Let_def)
  have "swipe shuffle lib req sess w
           = (render_current order (index + 1) w, sess1\<lparr>swipe_index := Some (index + 1)\<rparr>, w)"
    using assms(1-6) r by (simp add: swipe_def)
  moreover have "swipe_order sess \<noteq> None \<longrightarrow> sess1 = sess"
    using assms(5) by (auto simp: swipe_order_of_def Let_def split: option.splits if_splits)
  ultimately show ?thesis by simp
qed

theorem swipe_duplicate_unchanged_witness:
  "field_swipe_count ten_swipe_world ''software'' = 10
   \<and> snd (swipe (\<lambda>xs. xs) example_lib like_request recruiter_session ten_swipe_world)
       = (recruiter_session\<lparr>swipe_index := Some 1\<rparr>, ten_swipe_world)"
proof -
  have h8: "\<exists>s \<in> set (swipes ten_swipe_world). s_resume_id s = 1 \<and> s_user_id s = 10"
    by (simp add: ten_swipe_world_def)
  have ne: "''software'' \<noteq> []" by simp
  show ?thesis
    using swipe_duplicate_unchanged [OF recruiter_session_fields(1-3) ne recruiter_session_fields(4)
        like_request_fields(1,2) h8, of example_lib] ten_swipe_count
    by simp
qed

end
